theory Spec2Isabelle
  imports Main
begin

section \<open>Exceptions\<close>

text \<open>
  The program is a Python script. A Python exception is a value \<open>Raised name\<close>; a function
  that may raise returns \<open>error + 'a\<close>, with \<open>Inl\<close> for the exception. The script has no
  \<open>try\<close> statement, so an exception raised by a library call leaves every function on
  the call stack at once.
\<close>

datatype error = Raised string

section \<open>Text extraction: \<open>get_pdf_text\<close>\<close>

text \<open>
  An uploaded file is what \<open>pdfplumber.open\<close> makes of it: the call raises, or it gives the
  pages. A page is what \<open>page.extract_text()\<close> does on it: the call raises, or it returns
  \<open>None\<close> or a string.
\<close>

datatype page = Extracted "string option" | ExtractRaises error

datatype pdf = Opened "page list" | OpenRaises error

text \<open>Python's \<open>x or ""\<close> for \<open>x\<close> a string or \<open>None\<close>: a falsy \<open>x\<close> gives the empty string.\<close>

definition or_empty :: "string option \<Rightarrow> string" where
  "or_empty r = (case r of None \<Rightarrow> [] | Some t \<Rightarrow> (if t = [] then [] else t))"

text \<open>The inner loop \<open>for page in pdf_reader.pages: text += page.extract_text() or ""\<close>.\<close>

fun extract_pages :: "string \<Rightarrow> page list \<Rightarrow> error + string" where
  "extract_pages text [] = Inr text"
| "extract_pages text (ExtractRaises e # ps) = Inl e"
| "extract_pages text (Extracted r # ps) = extract_pages (text @ or_empty r) ps"

text \<open>The outer loop \<open>for pdf in pdf_docs: with pdfplumber.open(pdf) as pdf_reader: ...\<close>.\<close>

fun extract_docs :: "string \<Rightarrow> pdf list \<Rightarrow> error + string" where
  "extract_docs text [] = Inr text"
| "extract_docs text (OpenRaises e # ds) = Inl e"
| "extract_docs text (Opened ps # ds) =
     (case extract_pages text ps of
        Inl e \<Rightarrow> Inl e
      | Inr text' \<Rightarrow> extract_docs text' ds)"

definition get_pdf_text :: "pdf list \<Rightarrow> error + string" where
  "get_pdf_text pdf_docs = extract_docs [] pdf_docs"

text \<open>Vocabulary for statements about the extraction.\<close>

fun openable :: "pdf \<Rightarrow> bool" where
  "openable (Opened ps) = True"
| "openable (OpenRaises e) = False"

fun pages_of :: "pdf \<Rightarrow> page list" where
  "pages_of (Opened ps) = ps"
| "pages_of (OpenRaises e) = []"

definition all_pages :: "pdf list \<Rightarrow> page list" where
  "all_pages docs = concat (map pages_of docs)"

fun page_text :: "page \<Rightarrow> string" where
  "page_text (Extracted r) = or_empty r"
| "page_text (ExtractRaises e) = []"

fun first_raise :: "page list \<Rightarrow> error option" where
  "first_raise [] = None"
| "first_raise (ExtractRaises e # ps) = Some e"
| "first_raise (Extracted r # ps) = first_raise ps"

section \<open>Chat messages\<close>

text \<open>
  A message of the chat history has a \<open>type\<close> (\<open>"human"\<close> for a question, \<open>"ai"\<close> for an
  answer) and a \<open>content\<close>.
\<close>

record message =
  mtype :: string
  content :: string

definition HumanMessage :: "string \<Rightarrow> message" where
  "HumanMessage c = \<lparr>mtype = ''human'', content = c\<rparr>"

definition AIMessage :: "string \<Rightarrow> message" where
  "AIMessage c = \<lparr>mtype = ''ai'', content = c\<rparr>"

section \<open>External collaborators\<close>

text \<open>
  The text splitter, the embedding model with the vector store, the chat model and the
  retrieval chain are third-party libraries. The script fixes their configuration and
  calls them; what they compute is a parameter of the model. Each may raise.
  \<^item> \<open>split_text sep size overlap text\<close>:
    \<open>CharacterTextSplitter(separator, chunk_size, chunk_overlap, length_function=len).split_text(text)\<close>;
  \<^item> \<open>from_texts model texts\<close>:
    \<open>FAISS.from_texts(texts, HuggingFaceEmbeddings(model_name=model))\<close>;
  \<^item> \<open>chat_openai name\<close>: \<open>ChatOpenAI(model_name=name)\<close>;
  \<^item> \<open>generate llm retriever history question\<close>: retrieval over the index followed by the
    call of the hosted chat model, giving the answer text.
\<close>

record ('vs, 'llm) env =
  split_text :: "string \<Rightarrow> nat \<Rightarrow> nat \<Rightarrow> string \<Rightarrow> error + string list"
  from_texts :: "string \<Rightarrow> string list \<Rightarrow> error + 'vs"
  chat_openai :: "string \<Rightarrow> error + 'llm"
  generate :: "'llm \<Rightarrow> 'vs \<Rightarrow> message list \<Rightarrow> string \<Rightarrow> error + string"

section \<open>Chunking and indexing: \<open>get_text_chunks\<close>, \<open>get_vectorstore\<close>\<close>

definition get_text_chunks :: "('vs, 'llm) env \<Rightarrow> string \<Rightarrow> error + string list" where
  "get_text_chunks env text = split_text env [CHR 0x0A] 1000 200 text"

definition get_vectorstore :: "('vs, 'llm) env \<Rightarrow> string list \<Rightarrow> error + 'vs" where
  "get_vectorstore env text_chunks =
     from_texts env ''sentence-transformers/all-MiniLM-L6-v2'' text_chunks"

section \<open>The conversational chain\<close>

text \<open>
  The chain built by \<open>get_conversational_chain\<close>: the chat model, the retriever of the
  vector store, and a new \<open>ConversationBufferMemory\<close>, which holds no message yet.
\<close>

record ('vs, 'llm) chain =
  llm :: 'llm
  retriever :: 'vs
  memory :: "message list"

definition get_conversational_chain ::
  "('vs, 'llm) env \<Rightarrow> 'vs \<Rightarrow> error + ('vs, 'llm) chain" where
  "get_conversational_chain env vectorstore =
     (case chat_openai env ''gpt-3.5-turbo'' of
        Inl e \<Rightarrow> Inl e
      | Inr l \<Rightarrow> Inr \<lparr>llm = l, retriever = vectorstore, memory = []\<rparr>)"

text \<open>
  Modelled from the spec: the call \<open>qa_chain({"question": q})\<close> of the library's
  \<open>ConversationalRetrievalChain\<close> with its \<open>ConversationBufferMemory\<close>, which is not part of
  the script. The spec's \<open>ask\<close> retrieves the chunks, builds the prompt from the history
  and the question and invokes the hosted model (here \<open>generate\<close>); a failed generation
  appends nothing; a successful one appends the human question and then the assistant
  answer to the history of the handle. The response's \<open>chat_history\<close> entry, which the script
  renders, is that history after the append.
\<close>

definition ask ::
  "('vs, 'llm) env \<Rightarrow> ('vs, 'llm) chain \<Rightarrow> string \<Rightarrow> error + (message list \<times> ('vs, 'llm) chain)" where
  "ask env ch question =
     (case generate env (llm ch) (retriever ch) (memory ch) question of
        Inl e \<Rightarrow> Inl e
      | Inr answer \<Rightarrow>
          (let ch' = ch\<lparr>memory := memory ch @ [HumanMessage question, AIMessage answer]\<rparr>
           in Inr (memory ch', ch')))"

section \<open>Strings\<close>

text \<open>
  Python's \<open>s.replace(old, new)\<close>: every occurrence of \<open>old\<close> in \<open>s\<close>, found from left to
  right without overlap, becomes \<open>new\<close>; the text put in is not searched again. With an
  empty \<open>old\<close>, \<open>new\<close> is put before every character and at the end.
\<close>

fun replace_from :: "string \<Rightarrow> string \<Rightarrow> string \<Rightarrow> string" where
  "replace_from old new [] = []"
| "replace_from old new (c # cs) =
     (if take (length old) (c # cs) = old
      then new @ replace_from old new (drop (length old - 1) cs)
      else c # replace_from old new cs)"

definition replace :: "string \<Rightarrow> string \<Rightarrow> string \<Rightarrow> string" where
  "replace s old new =
     (if old = [] then new @ concat (map (\<lambda>c. c # new) s) else replace_from old new s)"

text \<open>
  Python's \<open>s.strip()\<close> removes the white space at both ends. The white space characters
  of \<open>str.isspace\<close> with a code below 256 are the codes 9 to 13, 28 to 32, 133 and 160.
\<close>

definition is_space :: "char \<Rightarrow> bool" where
  "is_space c =
     (c \<in> {CHR 0x09, CHR 0x0A, CHR 0x0B, CHR 0x0C, CHR 0x0D, CHR 0x1C, CHR 0x1D, CHR 0x1E,
           CHR 0x1F, CHR 0x20, CHR 0x85, CHR 0xA0})"

definition strip :: "string \<Rightarrow> string" where
  "strip s = rev (dropWhile is_space (rev (dropWhile is_space s)))"

section \<open>The templates of \<open>htmlTemplates.py\<close>\<close>

definition bot_template :: string where
  \<open>bot_template =
     ''\<newline><div class="chat-message bot">\<newline>    <div class="avatar">\<newline>        <img src="https://img.freepik.com/free-vector/graident-ai-robot-vectorart_78370-4114.jpg?semt=ais_hybrid&w=740">\<newline>    </div>\<newline>    <div class="message">{{MSG}}</div>\<newline></div>\<newline>''\<close>

definition user_template :: string where
  \<open>user_template =
     ''\<newline><div class="chat-message user">\<newline>    <div class="avatar">\<newline>        <img src="https://media.licdn.com/dms/image/v2/D4D03AQHuGGY88leagg/profile-displayphoto-shrink_400_400/B4DZR143PQHcAg-/0/1737144628588?e=1755129600&v=beta&t=FcqkrA2VKSgfpKrmAL6tJEow2gP8_znG-fhrdVfIb7A">\<newline>    </div>    \<newline>    <div class="message">{{MSG}}</div>\<newline></div>\<newline>''\<close>

text \<open>The text of each template before and after its placeholder.\<close>

definition bot_prefix :: string where
  \<open>bot_prefix =
     ''\<newline><div class="chat-message bot">\<newline>    <div class="avatar">\<newline>        <img src="https://img.freepik.com/free-vector/graident-ai-robot-vectorart_78370-4114.jpg?semt=ais_hybrid&w=740">\<newline>    </div>\<newline>    <div class="message">''\<close>

definition user_prefix :: string where
  \<open>user_prefix =
     ''\<newline><div class="chat-message user">\<newline>    <div class="avatar">\<newline>        <img src="https://media.licdn.com/dms/image/v2/D4D03AQHuGGY88leagg/profile-displayphoto-shrink_400_400/B4DZR143PQHcAg-/0/1737144628588?e=1755129600&v=beta&t=FcqkrA2VKSgfpKrmAL6tJEow2gP8_znG-fhrdVfIb7A">\<newline>    </div>    \<newline>    <div class="message">''\<close>

definition message_suffix :: string where
  \<open>message_suffix = ''</div>\<newline></div>\<newline>''\<close>

section \<open>The page: widgets, session state, and what one run of the script does\<close>

text \<open>
  One run of the script leaves a trace: the widgets it draws, in order, and the pipeline
  stages it starts (\<open>Ran\<close>). The two labels that begin with a pictograph are given
  without it.
\<close>

datatype stage = Extract | Chunk | Index | BuildChain | Ask

datatype event =
    PageConfig string
  | WriteCss
  | Header string
  | Subheader string
  | FileUploader string
  | Button string
  | Spinner string
  | Code string
  | Success string
  | Warning string
  | TextInput string
  | FormSubmitButton string
  | WriteHtml string
  | Ran stage

text \<open>
  \<open>st.session_state\<close> with its two keys. A key that is not set is \<open>None\<close>; the key
  \<open>qa_chain\<close>, once set, holds Python's \<open>None\<close> or a chain.
\<close>

record ('vs, 'llm) session_state =
  qa_chain :: "('vs, 'llm) chain option option"
  chat_history :: "message list option"

text \<open>
  A function of the script that works on the session gives the session it leaves, the
  trace it wrote and the exception it raised, if any.
\<close>

type_synonym ('vs, 'llm) outcome = "('vs, 'llm) session_state \<times> event list \<times> error option"

definition render :: "message \<Rightarrow> event" where
  "render m =
     (if mtype m = ''human''
      then WriteHtml (replace user_template ''{{MSG}}'' (content m))
      else WriteHtml (replace bot_template ''{{MSG}}'' (content m)))"

text \<open>
  \<open>handle_userinput\<close>: reading an unset key raises \<open>AttributeError\<close>, calling \<open>None\<close> raises
  \<open>TypeError\<close>; the chain is called, and only when it returns is the history of the
  session replaced and drawn.
\<close>

definition handle_userinput ::
  "('vs, 'llm) env \<Rightarrow> string \<Rightarrow> ('vs, 'llm) session_state \<Rightarrow> ('vs, 'llm) outcome" where
  "handle_userinput env user_question st =
     (case qa_chain st of
        None \<Rightarrow> (st, [], Some (Raised ''AttributeError''))
      | Some None \<Rightarrow> (st, [], Some (Raised ''TypeError''))
      | Some (Some ch) \<Rightarrow>
          (case ask env ch user_question of
             Inl e \<Rightarrow> (st, [Ran Ask], Some e)
           | Inr (history, ch') \<Rightarrow>
               (st\<lparr>qa_chain := Some (Some ch'), chat_history := Some history\<rparr>,
                Ran Ask # map render history, None)))"

text \<open>The body of \<open>with st.spinner("Processing..."):\<close> in \<open>main\<close>.\<close>

definition process ::
  "('vs, 'llm) env \<Rightarrow> pdf list \<Rightarrow> ('vs, 'llm) session_state \<Rightarrow> ('vs, 'llm) outcome" where
  "process env pdf_docs st =
     (case get_pdf_text pdf_docs of
        Inl e \<Rightarrow> (st, [Spinner ''Processing...'', Ran Extract], Some e)
      | Inr raw_text \<Rightarrow>
     (case get_text_chunks env raw_text of
        Inl e \<Rightarrow>
          (st, [Spinner ''Processing...'', Ran Extract, Subheader ''Extracted Text Preview'',
                Code (take 2000 raw_text), Ran Chunk], Some e)
      | Inr text_chunks \<Rightarrow>
     (case get_vectorstore env text_chunks of
        Inl e \<Rightarrow>
          (st, [Spinner ''Processing...'', Ran Extract, Subheader ''Extracted Text Preview'',
                Code (take 2000 raw_text), Ran Chunk, Ran Index], Some e)
      | Inr vectorstore \<Rightarrow>
     (case get_conversational_chain env vectorstore of
        Inl e \<Rightarrow>
          (st, [Spinner ''Processing...'', Ran Extract, Subheader ''Extracted Text Preview'',
                Code (take 2000 raw_text), Ran Chunk, Ran Index, Ran BuildChain], Some e)
      | Inr ch \<Rightarrow>
          (st\<lparr>qa_chain := Some (Some ch)\<rparr>,
           [Spinner ''Processing...'', Ran Extract, Subheader ''Extracted Text Preview'',
            Code (take 2000 raw_text), Ran Chunk, Ran Index, Ran BuildChain,
            Success ''Documents processed successfully!''], None)))))"

text \<open>
  The block \<open>with st.sidebar:\<close>. The button is drawn, and its click read, only when files
  are uploaded: \<open>if pdf_docs and st.button("Process")\<close>.
\<close>

definition uploader_label :: string where
  "uploader_label =
     ''Upload your PDFs here and click on '' @ [CHR 0x27] @ ''Process'' @ [CHR 0x27]"

definition sidebar ::
  "('vs, 'llm) env \<Rightarrow> pdf list \<Rightarrow> bool \<Rightarrow> ('vs, 'llm) session_state \<Rightarrow> ('vs, 'llm) outcome" where
  "sidebar env pdf_docs clicked st =
     (if pdf_docs \<noteq> [] then
        (if clicked then
           (case process env pdf_docs st of
              (st', tr, r) \<Rightarrow>
                (st', [Subheader ''Your documents'', FileUploader uploader_label,
                       Button ''Process''] @ tr, r))
         else (st, [Subheader ''Your documents'', FileUploader uploader_label,
                    Button ''Process''], None))
      else (st, [Subheader ''Your documents'', FileUploader uploader_label], None))"

text \<open>The block \<open>with st.form(key="question_form"):\<close>.\<close>

definition question_form ::
  "('vs, 'llm) env \<Rightarrow> string \<Rightarrow> bool \<Rightarrow> ('vs, 'llm) session_state \<Rightarrow> ('vs, 'llm) outcome" where
  "question_form env user_question submit_button st =
     (if submit_button then
        (case qa_chain st of
           None \<Rightarrow>
             (st, [TextInput ''Ask a question about your documents:'', FormSubmitButton ''Ask''],
              Some (Raised ''AttributeError''))
         | Some c \<Rightarrow>
             (if c \<noteq> None \<and> strip user_question \<noteq> [] then
                (case handle_userinput env user_question st of
                   (st', tr, r) \<Rightarrow>
                     (st', [TextInput ''Ask a question about your documents:'',
                            FormSubmitButton ''Ask''] @ tr, r))
              else if strip user_question = [] then
                (st, [TextInput ''Ask a question about your documents:'', FormSubmitButton ''Ask'',
                      Warning ''Please enter a valid question.''], None)
              else
                (st, [TextInput ''Ask a question about your documents:'', FormSubmitButton ''Ask'',
                      Warning ''Please upload and process a document first.''], None)))
      else (st, [TextInput ''Ask a question about your documents:'', FormSubmitButton ''Ask''],
            None))"

text \<open>The two \<open>if ... not in st.session_state\<close> statements at the top of \<open>main\<close>.\<close>

definition init_session :: "('vs, 'llm) session_state \<Rightarrow> ('vs, 'llm) session_state" where
  "init_session st =
     st\<lparr>qa_chain := (case qa_chain st of None \<Rightarrow> Some None | Some c \<Rightarrow> Some c),
        chat_history := (case chat_history st of None \<Rightarrow> Some [] | Some h \<Rightarrow> Some h)\<rparr>"

text \<open>What the user did before a run: the files uploaded and the widgets' values.\<close>

record inputs =
  in_pdf_docs :: "pdf list"
  in_process :: bool
  in_user_question :: string
  in_submit_button :: bool

definition page_head :: "event list" where
  "page_head =
     [PageConfig ''Chat with multiple PDFs'', WriteCss, Header ''Chat with multiple PDFs :books:'']"

definition main ::
  "('vs, 'llm) env \<Rightarrow> inputs \<Rightarrow> ('vs, 'llm) session_state \<Rightarrow> ('vs, 'llm) outcome" where
  "main env inp st =
     (case sidebar env (in_pdf_docs inp) (in_process inp) (init_session st) of
        (st1, tr1, Some e) \<Rightarrow> (st1, page_head @ tr1, Some e)
      | (st1, tr1, None) \<Rightarrow>
          (case question_form env (in_user_question inp) (in_submit_button inp) st1 of
             (st2, tr2, r) \<Rightarrow> (st2, page_head @ tr1 @ tr2, r)))"

text \<open>What the trace of an outcome shows.\<close>

fun state_of :: "('vs, 'llm) outcome \<Rightarrow> ('vs, 'llm) session_state" where
  "state_of (st, tr, r) = st"

fun trace_of :: "('vs, 'llm) outcome \<Rightarrow> event list" where
  "trace_of (st, tr, r) = tr"

fun raised_of :: "('vs, 'llm) outcome \<Rightarrow> error option" where
  "raised_of (st, tr, r) = r"

fun is_stage :: "event \<Rightarrow> bool" where
  "is_stage (Ran s) = True"
| "is_stage ev = False"

fun is_warning :: "event \<Rightarrow> bool" where
  "is_warning (Warning w) = True"
| "is_warning ev = False"

section \<open>Stand-ins for the collaborators\<close>

text \<open>
  A splitter that keeps a non-empty text whole, an index that is the list of its texts
  and refuses the empty list, and a chat model that fails on the question \<open>boom\<close>: enough
  to run the script's functions on concrete inputs.
\<close>

definition stub_env :: "(string list, string) env" where
  "stub_env =
     \<lparr>split_text = (\<lambda>sep size overlap text. Inr (if text = [] then [] else [text])),
      from_texts = (\<lambda>model texts. if texts = [] then Inl (Raised ''IndexError'') else Inr texts),
      chat_openai = (\<lambda>name. Inr name),
      generate = (\<lambda>l vs history question.
         if question = ''boom'' then Inl (Raised ''APIError'') else Inr ''fine'')\<rparr>"

definition ready_session :: "(string list, string) session_state" where
  "ready_session =
     \<lparr>qa_chain = Some (Some \<lparr>llm = ''gpt-3.5-turbo'', retriever = [''Alpha''],
                               memory = [HumanMessage ''hi'', AIMessage ''hello'']\<rparr>),
      chat_history = Some [HumanMessage ''hi'', AIMessage ''hello'']\<rparr>"

section \<open>Properties of the text extraction\<close>

lemma first_raise_append:
  "first_raise (ps @ qs) = (case first_raise ps of Some e \<Rightarrow> Some e | None \<Rightarrow> first_raise qs)"
  by (induction ps rule: first_raise.induct) simp_all

lemma extract_pages_eq:
  "extract_pages t ps =
     (case first_raise ps of
        Some e \<Rightarrow> Inl e
      | None \<Rightarrow> Inr (t @ concat (map page_text ps)))"
  by (induction t ps rule: extract_pages.induct) (simp_all split: option.splits)

lemma extract_docs_eq:
  "list_all openable docs \<Longrightarrow>
   extract_docs t docs =
     (case first_raise (all_pages docs) of
        Some e \<Rightarrow> Inl e
      | None \<Rightarrow> Inr (t @ concat (map page_text (all_pages docs))))"
proof (induction t docs rule: extract_docs.induct)
  case (1 t)
  then show ?case by (simp add: all_pages_def)
next
  case (2 t e ds)
  then show ?case by simp
next
  case (3 t ps ds)
  show ?case
  proof (cases "first_raise ps")
    case None
    with 3 show ?thesis
      by (simp add: extract_pages_eq all_pages_def first_raise_append split: option.splits)
  next
    case (Some e)
    then show ?thesis
      by (simp add: extract_pages_eq all_pages_def first_raise_append)
  qed
qed

text \<open>
  C7, as the code has it. For uploaded files that all open, \<open>get_pdf_text\<close> goes through the
  pages in upload order and page order. When no call of \<open>extract_text\<close> raises, the result
  is the concatenation of the page texts, where a page that gives \<open>None\<close> or the empty
  string adds nothing. When a call raises, nothing catches the exception: the extraction
  ends with the exception of the first such page.
\<close>

theorem get_pdf_text_pages:
  assumes "list_all openable docs"
  shows "get_pdf_text docs =
     (case first_raise (all_pages docs) of
        Some e \<Rightarrow> Inl e
      | None \<Rightarrow> Inr (concat (map page_text (all_pages docs))))"
  using extract_docs_eq [OF assms, of "[]"]
  by (simp add: get_pdf_text_def split: option.splits)

theorem get_pdf_text_pages_witness:
  "list_all openable
     [Opened [Extracted (Some ''Alpha ''), Extracted None, Extracted (Some [])],
      Opened [Extracted (Some ''Beta'')]]
   \<and> get_pdf_text
     [Opened [Extracted (Some ''Alpha ''), Extracted None, Extracted (Some [])],
      Opened [Extracted (Some ''Beta'')]] = Inr ''Alpha Beta''"
  using get_pdf_text_pages
    [of "[Opened [Extracted (Some ''Alpha ''), Extracted None, Extracted (Some [])],
          Opened [Extracted (Some ''Beta'')]]"]
  by (simp add: all_pages_def or_empty_def)

text \<open>
  C7 as the spec words it fails: a page on which \<open>extract_text\<close> raises does not add the
  empty string, it ends the whole extraction. With three pages, the second raising, the
  result is the exception and not the text of the other two pages.
\<close>

theorem get_pdf_text_raising_page:
  "list_all openable
     [Opened [Extracted (Some ''a''), ExtractRaises (Raised ''PDFSyntaxError''),
              Extracted (Some ''b'')]]
   \<and> get_pdf_text
     [Opened [Extracted (Some ''a''), ExtractRaises (Raised ''PDFSyntaxError''),
              Extracted (Some ''b'')]] = Inl (Raised ''PDFSyntaxError'')
   \<and> get_pdf_text
     [Opened [Extracted (Some ''a''), ExtractRaises (Raised ''PDFSyntaxError''),
              Extracted (Some ''b'')]] \<noteq> Inr (''a'' @ [] @ ''b'')"
  by (simp add: get_pdf_text_def or_empty_def)

section \<open>Properties of the chunking\<close>

text \<open>
  The script takes the chunks as the splitter gives them. No splitter can both give every
  text of at most 1000 characters back as its one chunk and give no chunk for the empty
  text: the two demands meet at the empty text.
\<close>

lemma one_chunk_and_no_chunk_clash:
  "\<not> ((\<forall>t. length t \<le> 1000 \<longrightarrow> get_text_chunks env t = Inr [t])
      \<and> get_text_chunks env [] = Inr [])"
proof
  assume both: "(\<forall>t. length t \<le> 1000 \<longrightarrow> get_text_chunks env t = Inr [t])
      \<and> get_text_chunks env [] = Inr []"
  then have "length ([] :: string) \<le> 1000 \<longrightarrow> get_text_chunks env [] = Inr [[]]"
    by blast
  with both show False by simp
qed

section \<open>Properties of the rendering\<close>

lemma bot_template_split: "bot_template = bot_prefix @ ''{{MSG}}'' @ message_suffix"
  by (simp add: bot_template_def bot_prefix_def message_suffix_def)

lemma user_template_split: "user_template = user_prefix @ ''{{MSG}}'' @ message_suffix"
  by (simp add: user_template_def user_prefix_def message_suffix_def)

lemma replace_bot: "replace bot_template ''{{MSG}}'' c = bot_prefix @ c @ message_suffix"
  by (simp add: replace_def bot_template_def bot_prefix_def message_suffix_def)

lemma replace_user: "replace user_template ''{{MSG}}'' c = user_prefix @ c @ message_suffix"
  by (simp add: replace_def user_template_def user_prefix_def message_suffix_def)

lemma render_eq:
  "render m =
     WriteHtml ((if mtype m = ''human'' then user_prefix else bot_prefix)
                @ content m @ message_suffix)"
  by (simp add: render_def replace_bot replace_user)

text \<open>
  C10. Each template is its prefix, the placeholder \<open>{{MSG}}\<close> and the suffix. Rendering a
  history gives, in the order of the history, one fragment of markup for each message: the user
  template for a message of type \<open>human\<close>, the bot template for any other, with the
  placeholder replaced by the content of the message. After a chain call that returns,
  the trace of \<open>handle_userinput\<close> is the call followed by this rendering of the returned
  history.
\<close>

theorem render_transcript:
  "user_template = user_prefix @ ''{{MSG}}'' @ message_suffix
   \<and> bot_template = bot_prefix @ ''{{MSG}}'' @ message_suffix
   \<and> map render history =
       map (\<lambda>m. WriteHtml ((if mtype m = ''human'' then user_prefix else bot_prefix)
                             @ content m @ message_suffix)) history
   \<and> (qa_chain st = Some (Some ch) \<and> ask env ch q = Inr (history, ch') \<longrightarrow>
        trace_of (handle_userinput env q st) = Ran Ask # map render history)"
proof (intro conjI impI)
  show "user_template = user_prefix @ ''{{MSG}}'' @ message_suffix"
    by (rule user_template_split)
  show "bot_template = bot_prefix @ ''{{MSG}}'' @ message_suffix"
    by (rule bot_template_split)
  show "map render history =
       map (\<lambda>m. WriteHtml ((if mtype m = ''human'' then user_prefix else bot_prefix)
                             @ content m @ message_suffix)) history"
    by (rule map_cong [OF refl]) (rule render_eq)
next
  assume "qa_chain st = Some (Some ch) \<and> ask env ch q = Inr (history, ch')"
  then show "trace_of (handle_userinput env q st) = Ran Ask # map render history"
    by (simp add: handle_userinput_def)
qed

text \<open>
  C10 at a history whose answer is the placeholder itself, which is not replaced again,
  and at a question asked in a session.
\<close>

theorem render_transcript_witness:
  "map render [HumanMessage ''hi'', AIMessage ''{{MSG}}''] =
     [WriteHtml (user_prefix @ ''hi'' @ message_suffix),
      WriteHtml (bot_prefix @ ''{{MSG}}'' @ message_suffix)]
   \<and> qa_chain ready_session =
     Some (Some \<lparr>llm = ''gpt-3.5-turbo'', retriever = [''Alpha''],
                 memory = [HumanMessage ''hi'', AIMessage ''hello'']\<rparr>)
   \<and> ask stub_env \<lparr>llm = ''gpt-3.5-turbo'', retriever = [''Alpha''],
                 memory = [HumanMessage ''hi'', AIMessage ''hello'']\<rparr> ''Alpha?'' =
       Inr ([HumanMessage ''hi'', AIMessage ''hello'', HumanMessage ''Alpha?'', AIMessage ''fine''],
            \<lparr>llm = ''gpt-3.5-turbo'', retriever = [''Alpha''],
                 memory = [HumanMessage ''hi'', AIMessage ''hello'', HumanMessage ''Alpha?'',
                           AIMessage ''fine'']\<rparr>)
   \<and> trace_of (handle_userinput stub_env ''Alpha?'' ready_session) =
       [Ran Ask,
        WriteHtml (user_prefix @ ''hi'' @ message_suffix),
        WriteHtml (bot_prefix @ ''hello'' @ message_suffix),
        WriteHtml (user_prefix @ ''Alpha?'' @ message_suffix),
        WriteHtml (bot_prefix @ ''fine'' @ message_suffix)]"
proof -
  let ?ch = "\<lparr>llm = ''gpt-3.5-turbo'', retriever = [''Alpha''],
              memory = [HumanMessage ''hi'', AIMessage ''hello'']\<rparr>"
  let ?h = "[HumanMessage ''hi'', AIMessage ''hello'', HumanMessage ''Alpha?'', AIMessage ''fine'']"
  have q: "qa_chain ready_session = Some (Some ?ch)"
    by (simp add: ready_session_def)
  have a: "ask stub_env ?ch ''Alpha?'' = Inr (?h, ?ch\<lparr>memory := ?h\<rparr>)"
    by (simp add: ask_def stub_env_def)
  note r = render_transcript [of _ ready_session ?ch stub_env "''Alpha?''" "?ch\<lparr>memory := ?h\<rparr>"]
  have m1: "map render [HumanMessage ''hi'', AIMessage ''{{MSG}}''] =
     [WriteHtml (user_prefix @ ''hi'' @ message_suffix),
      WriteHtml (bot_prefix @ ''{{MSG}}'' @ message_suffix)]"
    using r [of "[HumanMessage ''hi'', AIMessage ''{{MSG}}'']", THEN conjunct2, THEN conjunct2,
             THEN conjunct1]
    by (simp add: HumanMessage_def AIMessage_def)
  have m2: "map render ?h =
       [WriteHtml (user_prefix @ ''hi'' @ message_suffix),
        WriteHtml (bot_prefix @ ''hello'' @ message_suffix),
        WriteHtml (user_prefix @ ''Alpha?'' @ message_suffix),
        WriteHtml (bot_prefix @ ''fine'' @ message_suffix)]"
    using r [of ?h, THEN conjunct2, THEN conjunct2, THEN conjunct1]
    by (simp add: HumanMessage_def AIMessage_def)
  have t: "trace_of (handle_userinput stub_env ''Alpha?'' ready_session) = Ran Ask # map render ?h"
    using r [of ?h, THEN conjunct2, THEN conjunct2, THEN conjunct2] q a by blast
  show ?thesis
    using q a m1 t unfolding m2 by simp
qed

section \<open>Properties of the question form\<close>

lemma strip_blank:
  assumes "list_all is_space q"
  shows "strip q = []"
proof -
  have blank: "dropWhile is_space q = []"
    using assms by (simp add: list_all_iff)
  show ?thesis
    unfolding strip_def blank by simp
qed

lemma strip_eq_Nil: "strip q = [] \<longleftrightarrow> list_all is_space q"
proof
  assume "strip q = []"
  then have "dropWhile is_space (rev (dropWhile is_space q)) = []"
    by (simp add: strip_def)
  then have "\<forall>c\<in>set (dropWhile is_space q). is_space c"
    by simp
  then have "dropWhile is_space q = []"
    using hd_dropWhile [of is_space q] hd_in_set [of "dropWhile is_space q"] by blast
  then show "list_all is_space q"
    by (simp add: list_all_iff)
qed (rule strip_blank)

lemma qa_chain_init: "\<exists>c. qa_chain (init_session st) = Some c"
  by (simp add: init_session_def split: option.splits)

text \<open>
  C5. A submitted question that is empty or made of white space only draws the warning
  \<open>Please enter a valid question.\<close> and nothing else: the session is left as it was, no chain
  is called. In a whole run of \<open>main\<close> without processing, the session is the initialised
  one, no stage runs and that warning is the only one. The other warning,
  \<open>Please upload and process a document first.\<close>, is drawn for a question with visible text
  when the session holds no chain.
\<close>

theorem blank_question_warning:
  assumes "list_all is_space q"
  shows "(qa_chain st = Some c \<longrightarrow>
            question_form env q True st =
              (st, [TextInput ''Ask a question about your documents:'', FormSubmitButton ''Ask'',
                    Warning ''Please enter a valid question.''], None))
       \<and> (in_user_question inp = q \<and> in_submit_button inp \<and> (in_pdf_docs inp = [] \<or> \<not> in_process inp) \<longrightarrow>
            state_of (main env inp st) = init_session st
          \<and> raised_of (main env inp st) = None
          \<and> \<not> list_ex is_stage (trace_of (main env inp st))
          \<and> filter is_warning (trace_of (main env inp st)) = [Warning ''Please enter a valid question.''])
       \<and> (\<not> list_all is_space q' \<longrightarrow>
            question_form env q' True (st\<lparr>qa_chain := Some None\<rparr>) =
              (st\<lparr>qa_chain := Some None\<rparr>,
               [TextInput ''Ask a question about your documents:'', FormSubmitButton ''Ask'',
                Warning ''Please upload and process a document first.''], None))"
proof (intro conjI impI)
  assume "qa_chain st = Some c"
  with assms show "question_form env q True st =
      (st, [TextInput ''Ask a question about your documents:'', FormSubmitButton ''Ask'',
            Warning ''Please enter a valid question.''], None)"
    by (simp add: question_form_def strip_blank)
next
  assume "\<not> list_all is_space q'"
  then have "strip q' \<noteq> []" by (simp add: strip_eq_Nil)
  then show "question_form env q' True (st\<lparr>qa_chain := Some None\<rparr>) =
      (st\<lparr>qa_chain := Some None\<rparr>,
       [TextInput ''Ask a question about your documents:'', FormSubmitButton ''Ask'',
        Warning ''Please upload and process a document first.''], None)"
    by (simp add: question_form_def)
next
  assume h: "in_user_question inp = q \<and> in_submit_button inp \<and> (in_pdf_docs inp = [] \<or> \<not> in_process inp)"
  obtain c where c: "qa_chain (init_session st) = Some c"
    using qa_chain_init by blast
  have m: "main env inp st =
      (init_session st,
       page_head @ trace_of (sidebar env (in_pdf_docs inp) (in_process inp) (init_session st))
         @ [TextInput ''Ask a question about your documents:'', FormSubmitButton ''Ask'',
            Warning ''Please enter a valid question.''], None)"
    using h c assms by (auto simp: main_def sidebar_def question_form_def strip_blank)
  have s: "\<not> list_ex is_stage (trace_of (sidebar env (in_pdf_docs inp) (in_process inp) (init_session st)))"
          "filter is_warning (trace_of (sidebar env (in_pdf_docs inp) (in_process inp) (init_session st))) = []"
    using h by (auto simp: sidebar_def)
  show "state_of (main env inp st) = init_session st" by (simp add: m)
  show "raised_of (main env inp st) = None" by (simp add: m)
  show "\<not> list_ex is_stage (trace_of (main env inp st))"
    using s by (simp add: m page_head_def)
  show "filter is_warning (trace_of (main env inp st)) = [Warning ''Please enter a valid question.'']"
    using s by (simp add: m page_head_def)
qed

text \<open>The hypotheses of C5 at a question of a space and a tab, and at the question \<open>Alpha?\<close>.\<close>

theorem blank_question_warning_witness:
  "list_all is_space [CHR '' '', CHR 0x09]
   \<and> qa_chain ready_session = Some (Some \<lparr>llm = ''gpt-3.5-turbo'', retriever = [''Alpha''],
                               memory = [HumanMessage ''hi'', AIMessage ''hello'']\<rparr>)
   \<and> question_form stub_env [CHR '' '', CHR 0x09] True ready_session =
         (ready_session,
          [TextInput ''Ask a question about your documents:'', FormSubmitButton ''Ask'',
           Warning ''Please enter a valid question.''], None)
   \<and> state_of (main stub_env \<lparr>in_pdf_docs = [], in_process = False,
          in_user_question = [CHR '' '', CHR 0x09], in_submit_button = True\<rparr> ready_session)
        = ready_session
   \<and> \<not> list_all is_space ''Alpha?''
   \<and> question_form stub_env ''Alpha?'' True (ready_session\<lparr>qa_chain := Some None\<rparr>) =
         (ready_session\<lparr>qa_chain := Some None\<rparr>,
          [TextInput ''Ask a question about your documents:'', FormSubmitButton ''Ask'',
           Warning ''Please upload and process a document first.''], None)"
  using blank_question_warning
    [of "[CHR '' '', CHR 0x09]" ready_session
        "Some \<lparr>llm = ''gpt-3.5-turbo'', retriever = [''Alpha''],
                               memory = [HumanMessage ''hi'', AIMessage ''hello'']\<rparr>"
        stub_env
        "\<lparr>in_pdf_docs = [], in_process = False,
          in_user_question = [CHR '' '', CHR 0x09], in_submit_button = True\<rparr>"
        "''Alpha?''"]
  by (simp add: is_space_def ready_session_def init_session_def)

text \<open>
  C1. For a session that holds a chain: when the generation raises, \<open>handle_userinput\<close>
  raises the same exception and leaves the session as it was, the memory of the chain and
  the key \<open>chat_history\<close> included; when the generation returns an answer, the memory of the
  chain and the key \<open>chat_history\<close> are the former memory followed by exactly two messages,
  the human question and then the answer.
\<close>

theorem ask_history:
  assumes "qa_chain st = Some (Some ch)"
  shows "(generate env (llm ch) (retriever ch) (memory ch) q = Inl e \<longrightarrow>
            handle_userinput env q st = (st, [Ran Ask], Some e))
       \<and> (generate env (llm ch) (retriever ch) (memory ch) q = Inr a \<longrightarrow>
            state_of (handle_userinput env q st) =
              st\<lparr>qa_chain :=
                    Some (Some (ch\<lparr>memory := memory ch @ [HumanMessage q, AIMessage a]\<rparr>)),
                 chat_history := Some (memory ch @ [HumanMessage q, AIMessage a])\<rparr>
          \<and> raised_of (handle_userinput env q st) = None)"
  using assms by (simp add: handle_userinput_def ask_def Let_def)

text \<open>C1 at a failing and at an answered question.\<close>

theorem ask_history_witness:
  "qa_chain ready_session =
     Some (Some \<lparr>llm = ''gpt-3.5-turbo'', retriever = [''Alpha''],
                 memory = [HumanMessage ''hi'', AIMessage ''hello'']\<rparr>)
   \<and> generate stub_env ''gpt-3.5-turbo'' [''Alpha''] [HumanMessage ''hi'', AIMessage ''hello'']
        ''boom'' = Inl (Raised ''APIError'')
   \<and> handle_userinput stub_env ''boom'' ready_session =
        (ready_session, [Ran Ask], Some (Raised ''APIError''))
   \<and> generate stub_env ''gpt-3.5-turbo'' [''Alpha''] [HumanMessage ''hi'', AIMessage ''hello'']
        ''What is mentioned?'' = Inr ''fine''
   \<and> state_of (handle_userinput stub_env ''What is mentioned?'' ready_session) =
        \<lparr>qa_chain = Some (Some \<lparr>llm = ''gpt-3.5-turbo'', retriever = [''Alpha''],
            memory = [HumanMessage ''hi'', AIMessage ''hello'',
                      HumanMessage ''What is mentioned?'', AIMessage ''fine'']\<rparr>),
         chat_history = Some [HumanMessage ''hi'', AIMessage ''hello'',
                      HumanMessage ''What is mentioned?'', AIMessage ''fine'']\<rparr>"
  using ask_history
    [of ready_session "\<lparr>llm = ''gpt-3.5-turbo'', retriever = [''Alpha''],
                 memory = [HumanMessage ''hi'', AIMessage ''hello'']\<rparr>"
        stub_env "''boom''" "Raised ''APIError''" "''fine''"]
    ask_history
    [of ready_session "\<lparr>llm = ''gpt-3.5-turbo'', retriever = [''Alpha''],
                 memory = [HumanMessage ''hi'', AIMessage ''hello'']\<rparr>"
        stub_env "''What is mentioned?''" "Raised ''APIError''" "''fine''"]
  by (simp add: ready_session_def stub_env_def)

section \<open>Properties of the processing\<close>

text \<open>
  C9. With no uploaded file the side bar draws its subheader and the uploader and nothing
  else: no \<open>Process\<close> button, so no click, no stage, and the session is returned as it was.
  A stage in the trace of the side bar means that files were uploaded and the button was
  clicked; a \<open>Process\<close> button in the trace means that files were uploaded. A run of
  \<open>main\<close> with no file is the initialisation followed by the question form.
\<close>

theorem empty_upload_runs_nothing:
  "sidebar env [] clicked st =
     (st, [Subheader ''Your documents'', FileUploader uploader_label], None)
   \<and> (list_ex is_stage (trace_of (sidebar env docs clicked st)) \<longrightarrow> docs \<noteq> [] \<and> clicked)
   \<and> (Button ''Process'' \<in> set (trace_of (sidebar env docs clicked st)) \<longrightarrow> docs \<noteq> [])
   \<and> (in_pdf_docs inp = [] \<longrightarrow>
        main env inp st =
          (case question_form env (in_user_question inp) (in_submit_button inp) (init_session st) of
             (st2, tr2, r) \<Rightarrow>
               (st2, page_head @ [Subheader ''Your documents'', FileUploader uploader_label] @ tr2,
                r)))"
  by (auto simp: sidebar_def main_def split: prod.splits)

text \<open>C9 at concrete runs: no file, one file with a click, one file without.\<close>

theorem empty_upload_runs_nothing_witness:
  "sidebar stub_env [] True ready_session =
     (ready_session, [Subheader ''Your documents'', FileUploader uploader_label], None)
   \<and> list_ex is_stage (trace_of (sidebar stub_env [Opened [Extracted (Some ''Alpha'')]] True ready_session))
   \<and> Button ''Process'' \<in> set (trace_of (sidebar stub_env [Opened [Extracted (Some ''Alpha'')]] False ready_session))
   \<and> main stub_env \<lparr>in_pdf_docs = [], in_process = True, in_user_question = [],
                     in_submit_button = False\<rparr> ready_session =
        (ready_session,
         page_head @ [Subheader ''Your documents'', FileUploader uploader_label,
                      TextInput ''Ask a question about your documents:'', FormSubmitButton ''Ask''],
         None)"
  using empty_upload_runs_nothing
    [of stub_env True ready_session "[Opened [Extracted (Some ''Alpha'')]]"
        "\<lparr>in_pdf_docs = [], in_process = True, in_user_question = [],
                     in_submit_button = False\<rparr>"]
    empty_upload_runs_nothing
    [of stub_env False ready_session "[Opened [Extracted (Some ''Alpha'')]]"
        "\<lparr>in_pdf_docs = [], in_process = True, in_user_question = [],
                     in_submit_button = False\<rparr>"]
  by (simp add: sidebar_def process_def get_pdf_text_def or_empty_def get_text_chunks_def
      get_vectorstore_def get_conversational_chain_def stub_env_def question_form_def
      init_session_def ready_session_def)

text \<open>
  C6. When a session holds a chain and a new document set is processed with every stage
  returning, the session holds a new chain over the new index whose memory is empty, no
  exception is raised and the success message is the last widget. The key \<open>chat_history\<close>
  of the session is not written by the processing.
\<close>

theorem reprocess_new_handle:
  assumes "pdf_docs \<noteq> []"
    and "get_pdf_text pdf_docs = Inr raw_text"
    and "get_text_chunks env raw_text = Inr text_chunks"
    and "get_vectorstore env text_chunks = Inr vectorstore"
    and "chat_openai env ''gpt-3.5-turbo'' = Inr l"
    and "qa_chain st = Some (Some old)"
  shows "state_of (sidebar env pdf_docs True st) =
           st\<lparr>qa_chain := Some (Some \<lparr>llm = l, retriever = vectorstore, memory = []\<rparr>)\<rparr>
       \<and> raised_of (sidebar env pdf_docs True st) = None
       \<and> last (trace_of (sidebar env pdf_docs True st)) = Success ''Documents processed successfully!''
       \<and> chat_history (state_of (sidebar env pdf_docs True st)) = chat_history st"
  using assms by (simp add: sidebar_def process_def get_conversational_chain_def)

text \<open>C6 at a session whose chain remembers one exchange.\<close>

theorem reprocess_new_handle_witness:
  "[Opened [Extracted (Some ''Beta'')]] \<noteq> []
   \<and> get_pdf_text [Opened [Extracted (Some ''Beta'')]] = Inr ''Beta''
   \<and> get_text_chunks stub_env ''Beta'' = Inr [''Beta'']
   \<and> get_vectorstore stub_env [''Beta''] = Inr [''Beta'']
   \<and> chat_openai stub_env ''gpt-3.5-turbo'' = Inr ''gpt-3.5-turbo''
   \<and> qa_chain ready_session = Some (Some \<lparr>llm = ''gpt-3.5-turbo'', retriever = [''Alpha''],
                               memory = [HumanMessage ''hi'', AIMessage ''hello'']\<rparr>)
   \<and> state_of (sidebar stub_env [Opened [Extracted (Some ''Beta'')]] True ready_session) =
        \<lparr>qa_chain = Some (Some \<lparr>llm = ''gpt-3.5-turbo'', retriever = [''Beta''], memory = []\<rparr>),
         chat_history = Some [HumanMessage ''hi'', AIMessage ''hello'']\<rparr>"
  using reprocess_new_handle
    [of "[Opened [Extracted (Some ''Beta'')]]" "''Beta''" stub_env "[''Beta'']" "[''Beta'']"
        "''gpt-3.5-turbo''" ready_session
        "\<lparr>llm = ''gpt-3.5-turbo'', retriever = [''Alpha''],
                               memory = [HumanMessage ''hi'', AIMessage ''hello'']\<rparr>"]
  by (simp add: get_pdf_text_def or_empty_def get_text_chunks_def get_vectorstore_def
      stub_env_def ready_session_def)

text \<open>
  C4, as the code has it. When the chunking gives no chunk and building the index raises,
  \<open>main\<close> does not handle the exception: the run ends at the index stage with that
  exception, the trace holds neither a success message nor a warning, the question form is
  not drawn, and the session is the initialised one, with the chain it had.
\<close>

theorem empty_corpus_unhandled:
  assumes "in_pdf_docs inp \<noteq> []"
    and "in_process inp"
    and "get_pdf_text (in_pdf_docs inp) = Inr raw_text"
    and "get_text_chunks env raw_text = Inr []"
    and "get_vectorstore env [] = Inl e"
  shows "main env inp st =
     (init_session st,
      page_head @
      [Subheader ''Your documents'', FileUploader uploader_label, Button ''Process'',
       Spinner ''Processing...'', Ran Extract, Subheader ''Extracted Text Preview'',
       Code (take 2000 raw_text), Ran Chunk, Ran Index],
      Some e)"
  using assms by (simp add: main_def sidebar_def process_def)

text \<open>The hypotheses of C4 at an upload of one page without text.\<close>

theorem empty_corpus_unhandled_witness:
  "in_pdf_docs \<lparr>in_pdf_docs = [Opened [Extracted None]], in_process = True,
                 in_user_question = [], in_submit_button = False\<rparr> \<noteq> []
   \<and> get_pdf_text [Opened [Extracted None]] = Inr []
   \<and> get_text_chunks stub_env [] = Inr []
   \<and> get_vectorstore stub_env [] = Inl (Raised ''IndexError'')
   \<and> main stub_env \<lparr>in_pdf_docs = [Opened [Extracted None]], in_process = True,
                     in_user_question = [], in_submit_button = False\<rparr> ready_session =
       (ready_session,
        page_head @
        [Subheader ''Your documents'', FileUploader uploader_label, Button ''Process'',
         Spinner ''Processing...'', Ran Extract, Subheader ''Extracted Text Preview'',
         Code [], Ran Chunk, Ran Index],
        Some (Raised ''IndexError''))"
  using empty_corpus_unhandled
    [of "\<lparr>in_pdf_docs = [Opened [Extracted None]], in_process = True,
                 in_user_question = [], in_submit_button = False\<rparr>" "[]" stub_env
        "Raised ''IndexError''" ready_session]
  by (simp add: get_pdf_text_def or_empty_def get_text_chunks_def get_vectorstore_def
      stub_env_def init_session_def ready_session_def)

text \<open>
  C4 as the spec words it fails: for an upload whose only page has no text the chunking
  gives no chunk, the index build raises, and the run of \<open>main\<close> ends with that exception
  without any warning in its trace: the script reports nothing of its own.
\<close>

theorem empty_corpus_no_report:
  "get_pdf_text [Opened [Extracted None]] = Inr []
   \<and> get_text_chunks stub_env [] = Inr []
   \<and> raised_of (main stub_env \<lparr>in_pdf_docs = [Opened [Extracted None]], in_process = True,
                     in_user_question = [], in_submit_button = False\<rparr> ready_session)
       = Some (Raised ''IndexError'')
   \<and> \<not> list_ex is_warning
         (trace_of (main stub_env \<lparr>in_pdf_docs = [Opened [Extracted None]], in_process = True,
                     in_user_question = [], in_submit_button = False\<rparr> ready_session))"
  by (simp add: main_def sidebar_def process_def get_pdf_text_def or_empty_def
      get_text_chunks_def get_vectorstore_def stub_env_def init_session_def ready_session_def
      page_head_def)

end
